theory Spec2Isabelle
  imports Complex_Main "HOL-Library.AList"
begin

section \<open>JavaScript values\<close>

text \<open>
  The library is TypeScript; its inputs are typed \<open>number\<close>, \<open>string\<close> and
  \<open>Record<string, any>\<close>. A \<open>number\<close> is a finite value, \<open>NaN\<close> or one of the two
  infinities. A finite value is the real number that the binary64 value stands for
  (\<open>-0\<close> is not told apart from \<open>0\<close>, as \<open>===\<close> does not tell them apart either).
\<close>

datatype jsnum = NaN | NegInf | Fin real | PosInf

text \<open>
  The result of an arithmetic operation is the exact result rounded to binary64, to
  nearest with ties to even: \<open>round64\<close>. The exact result \<open>x\<close> lies in a binade, from
  \<open>2 ^ e\<close> up to \<open>2 ^ (e + 1)\<close> in magnitude, with \<open>e\<close> at least \<open>-1022\<close> (where the
  subnormal values start); the binary64 values of that binade are the multiples of
  \<open>2 ^ (e - 52)\<close>. A rounded magnitude of \<open>2 ^ 1024\<close> or more overflows to an infinity.
\<close>

definition round_even :: "real \<Rightarrow> int" where
  "round_even m =
    (let f = \<lfloor>m\<rfloor>; d = m - of_int f
     in if d < 1 / 2 then f else if 1 / 2 < d then f + 1 else if even f then f else f + 1)"

definition binade :: "real \<Rightarrow> int" where
  "binade x = max \<lfloor>log 2 \<bar>x\<bar>\<rfloor> (- 1022)"

definition round64 :: "real \<Rightarrow> jsnum" where
  "round64 x =
    (if x = 0 then Fin 0
     else
       (let q = 2 powr (of_int (binade x - 52));
            y = of_int (round_even (x / q)) * q
        in if 2 ^ 1024 \<le> \<bar>y\<bar> then (if 0 < x then PosInf else NegInf) else Fin y))"

text \<open>\<open>Math.max(a, b)\<close> and \<open>Math.min(a, b)\<close>: \<open>NaN\<close> if either argument is \<open>NaN\<close>.\<close>

fun Math_max :: "jsnum \<Rightarrow> jsnum \<Rightarrow> jsnum" where
  "Math_max NaN y = NaN"
| "Math_max x NaN = NaN"
| "Math_max PosInf y = PosInf"
| "Math_max x PosInf = PosInf"
| "Math_max NegInf y = y"
| "Math_max x NegInf = x"
| "Math_max (Fin a) (Fin b) = Fin (max a b)"

fun Math_min :: "jsnum \<Rightarrow> jsnum \<Rightarrow> jsnum" where
  "Math_min NaN y = NaN"
| "Math_min x NaN = NaN"
| "Math_min NegInf y = NegInf"
| "Math_min x NegInf = NegInf"
| "Math_min PosInf y = y"
| "Math_min x PosInf = x"
| "Math_min (Fin a) (Fin b) = Fin (min a b)"

text \<open>
  The arithmetic operators \<open>+\<close>, \<open>-\<close>, \<open>*\<close>, \<open>/\<close> and \<open>Math.ceil\<close> on numbers: sums,
  products and quotients of finite values are rounded; negation and \<open>Math.ceil\<close> are
  exact. A zero divisor is taken as \<open>+0\<close>.
\<close>

fun js_neg :: "jsnum \<Rightarrow> jsnum" where
  "js_neg NaN = NaN"
| "js_neg NegInf = PosInf"
| "js_neg PosInf = NegInf"
| "js_neg (Fin a) = Fin (- a)"

fun js_add :: "jsnum \<Rightarrow> jsnum \<Rightarrow> jsnum" where
  "js_add NaN y = NaN"
| "js_add x NaN = NaN"
| "js_add PosInf NegInf = NaN"
| "js_add NegInf PosInf = NaN"
| "js_add PosInf y = PosInf"
| "js_add NegInf y = NegInf"
| "js_add x PosInf = PosInf"
| "js_add x NegInf = NegInf"
| "js_add (Fin a) (Fin b) = round64 (a + b)"

definition js_sub :: "jsnum \<Rightarrow> jsnum \<Rightarrow> jsnum" where
  "js_sub x y = js_add x (js_neg y)"

text \<open>The sign of a number that is not \<open>NaN\<close>: \<open>-1\<close>, \<open>0\<close> or \<open>1\<close>.\<close>

fun js_sign :: "jsnum \<Rightarrow> int" where
  "js_sign NaN = 0"
| "js_sign NegInf = - 1"
| "js_sign PosInf = 1"
| "js_sign (Fin a) = (if a < 0 then - 1 else if a = 0 then 0 else 1)"

definition inf_of_sign :: "int \<Rightarrow> jsnum" where
  "inf_of_sign s = (if s = 0 then NaN else if s < 0 then NegInf else PosInf)"

fun js_mul :: "jsnum \<Rightarrow> jsnum \<Rightarrow> jsnum" where
  "js_mul NaN y = NaN"
| "js_mul x NaN = NaN"
| "js_mul (Fin a) (Fin b) = round64 (a * b)"
| "js_mul x y = inf_of_sign (js_sign x * js_sign y)"

fun js_div :: "jsnum \<Rightarrow> jsnum \<Rightarrow> jsnum" where
  "js_div NaN y = NaN"
| "js_div x NaN = NaN"
| "js_div (Fin a) (Fin b) = (if b = 0 then inf_of_sign (js_sign (Fin a)) else round64 (a / b))"
| "js_div (Fin a) y = Fin 0"
| "js_div x (Fin b) = inf_of_sign (js_sign x * (if b < 0 then - 1 else 1))"
| "js_div x y = NaN"

fun Math_ceil :: "jsnum \<Rightarrow> jsnum" where
  "Math_ceil (Fin a) = Fin (of_int \<lceil>a\<rceil>)"
| "Math_ceil x = x"

text \<open>The comparison \<open>a > b\<close>: false as soon as one side is \<open>NaN\<close>.\<close>

fun js_gt :: "jsnum \<Rightarrow> jsnum \<Rightarrow> bool" where
  "js_gt NaN y = False"
| "js_gt x NaN = False"
| "js_gt (Fin a) (Fin b) = (a > b)"
| "js_gt PosInf y = (y \<noteq> PosInf)"
| "js_gt x NegInf = (x \<noteq> NegInf)"
| "js_gt x y = False"

text \<open>
  Values of type \<open>any\<close>, restricted to the data a query parameter can hold: the
  primitives, \<open>Date\<close> objects, arrays and plain objects. A plain object is the list of
  its own enumerable properties in enumeration order. Strings are lists of code units
  (of the Latin-1 range). A \<open>Date\<close> is represented by the value it was constructed
  from: the runtime's date parsing is not part of the library.
\<close>

datatype jsval =
    Undefined
  | Null
  | JBool bool
  | JNum jsnum
  | JStr string
  | JDate jsval
  | JArr "jsval list"
  | JObj "(string \<times> jsval) list"

type_synonym object = "(string \<times> jsval) list"

text \<open>
  Property read \<open>o[k]\<close> (\<open>undefined\<close> when absent), \<open>k in o\<close>, and write \<open>o[k] = v\<close>: an
  existing property keeps its place, a new one comes last (as JavaScript orders keys
  that are not array indices). The properties below are stated on property lookup, so
  they do not depend on this order.
\<close>

definition get_prop :: "object \<Rightarrow> string \<Rightarrow> jsval" where
  "get_prop ob k = (case map_of ob k of None \<Rightarrow> Undefined | Some v \<Rightarrow> v)"

definition has_prop :: "object \<Rightarrow> string \<Rightarrow> bool" where
  "has_prop ob k = (k \<in> set (map fst ob))"

definition set_prop :: "object \<Rightarrow> string \<Rightarrow> jsval \<Rightarrow> object" where
  "set_prop ob k v = AList.update k v ob"

text \<open>Object spread \<open>{...a, ...b}\<close>: the properties of \<open>b\<close> are written over those of \<open>a\<close>.\<close>

definition spread :: "object \<Rightarrow> object \<Rightarrow> object" where
  "spread a b = fold (\<lambda>(k, v) acc. set_prop acc k v) b a"

text \<open>Truthiness (\<open>!!v\<close>) and \<open>typeof v\<close>.\<close>

fun truthy :: "jsval \<Rightarrow> bool" where
  "truthy Undefined = False"
| "truthy Null = False"
| "truthy (JBool b) = b"
| "truthy (JNum n) = (n \<noteq> NaN \<and> n \<noteq> Fin 0)"
| "truthy (JStr s) = (s \<noteq> [])"
| "truthy (JDate d) = True"
| "truthy (JArr xs) = True"
| "truthy (JObj ps) = True"

fun typeof :: "jsval \<Rightarrow> string" where
  "typeof Undefined = ''undefined''"
| "typeof Null = ''object''"
| "typeof (JBool b) = ''boolean''"
| "typeof (JNum n) = ''number''"
| "typeof (JStr s) = ''string''"
| "typeof (JDate d) = ''object''"
| "typeof (JArr xs) = ''object''"
| "typeof (JObj ps) = ''object''"

fun isArray :: "jsval \<Rightarrow> bool" where
  "isArray (JArr xs) = True"
| "isArray v = False"

section \<open>pagination.ts\<close>

definition DEFAULT_LIMIT :: jsnum where
  "DEFAULT_LIMIT = Fin 10"

definition MAX_LIMIT :: jsnum where
  "MAX_LIMIT = Fin 100"

text \<open>A parameter with a default: the default applies when the argument is \<open>undefined\<close>.\<close>

definition dflt :: "'a \<Rightarrow> 'a option \<Rightarrow> 'a" where
  "dflt d x = (case x of None \<Rightarrow> d | Some v \<Rightarrow> v)"

record pagination =
  take_of :: jsnum
  skip_of :: jsnum

definition getPagination :: "jsnum option \<Rightarrow> jsnum option \<Rightarrow> pagination" where
  "getPagination page_arg limit_arg =
    (let page = dflt (Fin 1) page_arg;
         limit = dflt DEFAULT_LIMIT limit_arg;
         safePage = Math_max (Fin 1) page;
         tk = Math_min (Math_max (Fin 1) limit) MAX_LIMIT;
         sk = js_mul (js_sub safePage (Fin 1)) tk
     in \<lparr> take_of = tk, skip_of = sk \<rparr>)"

text \<open>
  \<open>getCursorPagination\<close> returns an object literal; \<open>...(cursor && {...})\<close> adds the two
  properties when \<open>cursor\<close> is truthy, that is a non-empty string.
\<close>

definition getCursorPagination :: "string option \<Rightarrow> string option \<Rightarrow> jsnum option \<Rightarrow> object" where
  "getCursorPagination cursor cursorField_arg limit_arg =
    (let cursorField = dflt ''id'' cursorField_arg;
         limit = dflt DEFAULT_LIMIT limit_arg;
         tk = Math_min (Math_max (Fin 1) limit) MAX_LIMIT
     in spread [(''take'', JNum (js_add tk (Fin 1)))]
          (case cursor of
             None \<Rightarrow> []
           | Some c \<Rightarrow>
               if c \<noteq> [] then [(''skip'', JNum (Fin 1)), (''cursor'', JObj [(cursorField, JStr c)])]
               else []))"

definition calculateTotalPages :: "jsnum \<Rightarrow> jsnum \<Rightarrow> jsnum" where
  "calculateTotalPages tot limit = Math_ceil (js_div tot limit)"

text \<open>
  \<open>results.slice(0, end)\<close>: \<open>end\<close> is truncated towards zero (\<open>NaN\<close> counts as \<open>0\<close>);
  a negative \<open>end\<close> counts from the end of the array.
\<close>

definition trunc :: "real \<Rightarrow> int" where
  "trunc r = (if 0 \<le> r then \<lfloor>r\<rfloor> else \<lceil>r\<rceil>)"

fun slice0 :: "'a list \<Rightarrow> jsnum \<Rightarrow> 'a list" where
  "slice0 xs NaN = []"
| "slice0 xs NegInf = []"
| "slice0 xs PosInf = xs"
| "slice0 xs (Fin r) =
     (let k = trunc r
      in if k < 0 then List.take (nat (int (length xs) + k)) xs else List.take (nat k) xs)"

record cursor_result =
  data_of :: "object list"
  hasMore_of :: bool
  nextCursor_of :: "string option"

text \<open>
  \<open>processCursorResults\<close>. The rows are objects (\<open>T extends Record<string, any>\<close>), so
  the test \<open>if (lastItem)\<close> is the truthiness of an object. \<open>String(...)\<close> is the
  runtime's conversion to a string and is taken as the parameter \<open>toStr\<close>;
  \<open>nextCursor\<close> is \<open>None\<close> for \<open>null\<close>.
\<close>

definition processCursorResults ::
  "(jsval \<Rightarrow> string) \<Rightarrow> object list \<Rightarrow> jsnum \<Rightarrow> string option \<Rightarrow> cursor_result" where
  "processCursorResults toStr results limit cursorField_arg =
    (let cursorField = dflt ''id'' cursorField_arg;
         hasMore = js_gt (Fin (real (length results))) limit;
         dat = (if hasMore then slice0 results limit else results);
         nextCursor =
           (if hasMore \<and> length dat > 0 then
              (let lastItem = dat ! (length dat - 1)
               in if truthy (JObj lastItem) then
                    (let cursorValue = get_prop lastItem cursorField
                     in if cursorValue \<noteq> Undefined then Some (toStr cursorValue) else None)
                  else None)
            else None)
     in \<lparr> data_of = dat, hasMore_of = hasMore, nextCursor_of = nextCursor \<rparr>)"

section \<open>search.ts\<close>

text \<open>
  \<open>String.prototype.trim\<close> removes white space and line terminators from both ends;
  among the code units modelled these are TAB, LF, VT, FF, CR, SPACE and NBSP.
\<close>

definition is_ws :: "char \<Rightarrow> bool" where
  "is_ws c = ((of_char c :: nat) \<in> {9, 10, 11, 12, 13, 32, 160})"

definition trim :: "string \<Rightarrow> string" where
  "trim s = rev (dropWhile is_ws (rev (dropWhile is_ws s)))"

text \<open>\<open>buildSearchQuery\<close> returns \<open>undefined\<close> (\<open>None\<close>) or an object.\<close>

definition buildSearchQuery :: "string option \<Rightarrow> string list option \<Rightarrow> object option" where
  "buildSearchQuery search fields_arg =
    (let fields = dflt [] fields_arg
     in case search of
          None \<Rightarrow> None
        | Some s \<Rightarrow>
            if s = [] \<or> trim s = [] \<or> length fields = 0 then None
            else
              (let trimmedSearch = trim s
               in Some [(''OR'', JArr (map (\<lambda>field.
                          JObj [(field, JObj [(''contains'', JStr trimmedSearch),
                                              (''mode'', JStr ''insensitive'')])]) fields))]))"

section \<open>filters.ts\<close>

text \<open>
  \<open>k in v\<close> and \<open>v.k\<close> for the two property names the filter builder reads, \<open>from\<close>
  and \<open>to\<close>: no array and no \<open>Date\<close> has them.
\<close>

fun js_in :: "string \<Rightarrow> jsval \<Rightarrow> bool" where
  "js_in k (JObj ps) = has_prop ps k"
| "js_in k v = False"

fun member :: "jsval \<Rightarrow> string \<Rightarrow> jsval" where
  "member (JObj ps) k = get_prop ps k"
| "member v k = Undefined"

text \<open>\<open>new Date(v)\<close>: a copy of \<open>v\<close> when \<open>v\<close> is a \<open>Date\<close>.\<close>

fun new_Date :: "jsval \<Rightarrow> jsval" where
  "new_Date (JDate d) = JDate d"
| "new_Date v = JDate v"

definition buildDateRangeFilter :: "jsval \<Rightarrow> jsval" where
  "buildDateRangeFilter rng =
    (let filter0 = [];
         filter1 = (if truthy (member rng ''from'')
                    then set_prop filter0 ''gte'' (new_Date (member rng ''from'')) else filter0);
         filter2 = (if truthy (member rng ''to'')
                    then set_prop filter1 ''lte'' (new_Date (member rng ''to'')) else filter1)
     in JObj filter2)"

definition buildNumberRangeFilter :: "jsval \<Rightarrow> jsval" where
  "buildNumberRangeFilter rng =
    (let filter0 = [];
         filter1 = (if member rng ''from'' \<noteq> Undefined
                    then set_prop filter0 ''gte'' (member rng ''from'') else filter0);
         filter2 = (if member rng ''to'' \<noteq> Undefined
                    then set_prop filter1 ''lte'' (member rng ''to'') else filter1)
     in JObj filter2)"

fun isDateLike :: "jsval \<Rightarrow> bool" where
  "isDateLike (JDate d) = True"
| "isDateLike v = (typeof v = ''string'')"

definition isDateRangeFilter :: "jsval \<Rightarrow> bool" where
  "isDateRangeFilter v =
    (if typeof v \<noteq> ''object'' \<or> v = Null \<or> isArray v
        \<or> (\<not> js_in ''from'' v \<and> \<not> js_in ''to'' v)
     then False
     else
       (let from = member v ''from''; to = member v ''to''
        in (from \<noteq> Undefined \<and> isDateLike from) \<or> (to \<noteq> Undefined \<and> isDateLike to)))"

definition isNumberRangeFilter :: "jsval \<Rightarrow> bool" where
  "isNumberRangeFilter v =
    (typeof v = ''object'' \<and> v \<noteq> Null
     \<and> (js_in ''from'' v \<or> js_in ''to'' v)
     \<and> \<not> isArray v
     \<and> (typeof (member v ''from'') = ''number'' \<or> typeof (member v ''to'') = ''number''))"

fun array_length :: "jsval \<Rightarrow> nat" where
  "array_length (JArr xs) = length xs"
| "array_length v = 0"

text \<open>One iteration of the \<open>for (const key in filters)\<close> loop of \<open>buildFilters\<close>.\<close>

definition buildFilters_step :: "object \<Rightarrow> string \<Rightarrow> object \<Rightarrow> object" where
  "buildFilters_step filters key wh =
    (let v = get_prop filters key
     in if v = Undefined \<or> v = Null \<or> v = JStr [] then wh
        else if isNumberRangeFilter v then set_prop wh key (buildNumberRangeFilter v)
        else if isDateRangeFilter v then set_prop wh key (buildDateRangeFilter v)
        else if isArray v then
          (if array_length v > 0 then set_prop wh key (JObj [(''in'', v)]) else wh)
        else if typeof v = ''boolean'' then set_prop wh key v
        else set_prop wh key v)"

definition buildFilters :: "object \<Rightarrow> object" where
  "buildFilters filters = fold (buildFilters_step filters) (map fst filters) []"

text \<open>
  The enumerable properties that \<open>for ... in\<close> visits on a value: those of a plain
  object, the indices of an array, none for a \<open>Date\<close> or a primitive.
\<close>

definition digit_char :: "nat \<Rightarrow> char" where
  "digit_char d = char_of (48 + d)"

function dec_of_nat :: "nat \<Rightarrow> string" where
  "dec_of_nat n = (if n < 10 then [digit_char n] else dec_of_nat (n div 10) @ [digit_char (n mod 10)])"
  by pat_completeness auto
termination
  by (relation "measure id") auto

fun props_of :: "jsval \<Rightarrow> object" where
  "props_of (JObj ps) = ps"
| "props_of (JArr xs) = zip (map dec_of_nat [0..<length xs]) xs"
| "props_of v = []"

definition buildRelationFilters_step :: "object \<Rightarrow> string \<Rightarrow> object \<Rightarrow> object" where
  "buildRelationFilters_step relationFilters relation wh =
    (let conditions = get_prop relationFilters relation
     in if truthy conditions \<and> typeof conditions = ''object''
        then set_prop wh relation (JObj (buildFilters (props_of conditions)))
        else wh)"

definition buildRelationFilters :: "object \<Rightarrow> object" where
  "buildRelationFilters relationFilters =
     fold (buildRelationFilters_step relationFilters) (map fst relationFilters) []"

definition buildNotFilters :: "object \<Rightarrow> object option" where
  "buildNotFilters notFilters =
    (let filters = buildFilters notFilters
     in if length (map fst filters) = 0 then None else Some [(''NOT'', JObj filters)])"

text \<open>\<open>combineFilters(...filterObjects)\<close>: a left-to-right \<open>reduce\<close> with \<open>{...combined, ...current}\<close>.\<close>

definition combineFilters :: "object list \<Rightarrow> object" where
  "combineFilters filterObjects =
     foldl (\<lambda>combined current. spread (spread [] combined) current) [] filterObjects"

text \<open>\<open>combineFiltersWithOr\<close> returns \<open>undefined\<close>, one of its arguments, or an \<open>OR\<close> object.\<close>

definition combineFiltersWithOr :: "object list \<Rightarrow> jsval" where
  "combineFiltersWithOr filterObjects =
    (let validFilters = filter (\<lambda>f. length (map fst f) > 0) filterObjects
     in if length validFilters = 0 then Undefined
        else if length validFilters = 1 then JObj (validFilters ! 0)
        else JObj [(''OR'', JArr (map JObj validFilters))])"

section \<open>query-builder.ts\<close>

text \<open>
  The repository holds two variants of this file. The one modelled here has the
  \<open>relationFilters\<close> and \<open>cursorField\<close> parameters; the other is the same code without
  them (its cursor field is always \<open>id\<close>, its cursor query always orders by the single
  object \<open>{[sortBy]: sortOrder}\<close> with \<open>sortBy\<close> defaulting to \<open>createdAt\<close>).
\<close>

text \<open>
  The data-access collaborator (\<open>model\<close>). Each operation returns a promise, which is
  either rejected with a reason (\<open>Inl\<close>) or fulfilled with a value (\<open>Inr\<close>). When both
  promises given to \<open>Promise.all\<close> reject, the reason of the one rejecting first is
  passed on; \<open>count_rejects_first\<close> says which one that is.
\<close>

record model =
  findMany :: "jsval \<Rightarrow> jsval + object list"
  count :: "jsval \<Rightarrow> jsval + jsnum"
  aggregate :: "jsval \<Rightarrow> jsval + jsval"
  count_rejects_first :: bool

text \<open>The calls an orchestrator makes on the collaborator, in order, and the promise it returns.\<close>

datatype call = FindMany jsval | Count jsval | Aggregate jsval

record 'a outcome =
  calls :: "call list"
  result :: "jsval + 'a"

definition Promise_all :: "bool \<Rightarrow> jsval + 'a \<Rightarrow> jsval + 'b \<Rightarrow> jsval + ('a \<times> 'b)" where
  "Promise_all second_first p q =
    (case p of
       Inr x \<Rightarrow> (case q of Inr y \<Rightarrow> Inr (x, y) | Inl e \<Rightarrow> Inl e)
     | Inl e1 \<Rightarrow> (case q of Inr y \<Rightarrow> Inl e1 | Inl e2 \<Rightarrow> Inl (if second_first then e2 else e1)))"

datatype sort_order = asc | desc

fun sort_order_str :: "sort_order \<Rightarrow> jsval" where
  "sort_order_str asc = JStr ''asc''"
| "sort_order_str desc = JStr ''desc''"

record QueryBuilderArgs =
  q_model :: model
  q_page :: "jsnum option"
  q_limit :: "jsnum option"
  q_search :: "string option"
  q_searchFields :: "string list option"
  q_filters :: "object option"
  q_relationFilters :: "object option"
  q_sortBy :: "string option"
  q_sortOrder :: "sort_order option"
  q_include :: jsval
  q_select :: jsval

record offset_meta =
  meta_total :: jsnum
  meta_page :: jsnum
  meta_limit :: jsnum
  meta_totalPages :: jsnum

record QueryBuilderResponse =
  qr_data :: "object list"
  qr_meta :: offset_meta

text \<open>\<open>searchQuery || {}\<close>, and \<open>...(v && { k: v })\<close> inside an object literal.\<close>

definition or_empty :: "object option \<Rightarrow> object" where
  "or_empty q = (case q of None \<Rightarrow> [] | Some ob \<Rightarrow> ob)"

definition and_prop :: "string \<Rightarrow> jsval \<Rightarrow> object" where
  "and_prop k v = (if truthy v then [(k, v)] else [])"

text \<open>The \<open>where\<close> object that every orchestrator assembles.\<close>

definition build_where ::
  "string option \<Rightarrow> string list option \<Rightarrow> object option \<Rightarrow> object option \<Rightarrow> object" where
  "build_where search_arg searchFields_arg filters_arg relationFilters_arg =
    (let searchQuery = buildSearchQuery search_arg (Some (dflt [] searchFields_arg));
         filterQuery = buildFilters (dflt [] filters_arg);
         relationQuery = buildRelationFilters (dflt [] relationFilters_arg)
     in combineFilters [or_empty searchQuery, filterQuery, relationQuery])"

definition queryBuilder :: "QueryBuilderArgs \<Rightarrow> QueryBuilderResponse outcome" where
  "queryBuilder a =
    (let pg = dflt (Fin 1) (q_page a);
         lim = dflt (Fin 10) (q_limit a);
         sortBy' = dflt ''createdAt'' (q_sortBy a);
         sortOrder' = dflt desc (q_sortOrder a);
         p = getPagination (Some pg) (Some lim);
         wh = build_where (q_search a) (q_searchFields a) (q_filters a) (q_relationFilters a);
         findArgs = JObj (spread (spread
                      [(''where'', JObj wh), (''take'', JNum (take_of p)), (''skip'', JNum (skip_of p)),
                       (''orderBy'', JObj [(sortBy', sort_order_str sortOrder')])]
                      (and_prop ''include'' (q_include a))) (and_prop ''select'' (q_select a)));
         countArgs = JObj [(''where'', JObj wh)]
     in \<lparr> calls = [FindMany findArgs, Count countArgs],
          result =
            (case Promise_all (count_rejects_first (q_model a))
                    (findMany (q_model a) findArgs) (count (q_model a) countArgs) of
               Inl e \<Rightarrow> Inl e
             | Inr (dat, tot) \<Rightarrow>
                 Inr \<lparr> qr_data = dat,
                       qr_meta = \<lparr> meta_total = tot, meta_page = pg, meta_limit = take_of p,
                                   meta_totalPages = Math_ceil (js_div tot (take_of p)) \<rparr> \<rparr>) \<rparr>)"

record CursorQueryBuilderArgs =
  c_model :: model
  c_cursor :: "string option"
  c_limit :: "jsnum option"
  c_search :: "string option"
  c_searchFields :: "string list option"
  c_filters :: "object option"
  c_relationFilters :: "object option"
  c_sortBy :: "string option"
  c_sortOrder :: "sort_order option"
  c_include :: jsval
  c_select :: jsval
  c_cursorField :: "string option"

record cursor_meta =
  meta_nextCursor :: "string option"
  meta_hasMore :: bool
  meta_climit :: jsnum

record CursorQueryBuilderResponse =
  cr_data :: "object list"
  cr_meta :: cursor_meta

text \<open>\<open>sortBy || cursorField\<close>: the cursor field when \<open>sortBy\<close> is absent or empty.\<close>

definition effectiveSortBy :: "string option \<Rightarrow> string \<Rightarrow> string" where
  "effectiveSortBy sortBy_arg cursorField =
    (case sortBy_arg of None \<Rightarrow> cursorField | Some s \<Rightarrow> if s \<noteq> [] then s else cursorField)"

definition cursor_orderBy :: "string option \<Rightarrow> string \<Rightarrow> sort_order \<Rightarrow> jsval" where
  "cursor_orderBy sortBy_arg cursorField ord =
    (let eff = effectiveSortBy sortBy_arg cursorField
     in if eff = cursorField then JObj [(eff, sort_order_str ord)]
        else JArr [JObj [(eff, sort_order_str ord)], JObj [(cursorField, sort_order_str ord)]])"

definition cursor_findArgs :: "CursorQueryBuilderArgs \<Rightarrow> jsval" where
  "cursor_findArgs a =
    (let lim = dflt (Fin 10) (c_limit a);
         sortOrder' = dflt desc (c_sortOrder a);
         cursorField = dflt ''id'' (c_cursorField a);
         cursorPagination = getCursorPagination (c_cursor a) (Some cursorField) (Some lim);
         wh = build_where (c_search a) (c_searchFields a) (c_filters a) (c_relationFilters a)
     in JObj (spread (spread
          (set_prop (spread [(''where'', JObj wh)] cursorPagination)
             ''orderBy'' (cursor_orderBy (c_sortBy a) cursorField sortOrder'))
          (and_prop ''include'' (c_include a))) (and_prop ''select'' (c_select a))))"

definition cursorQueryBuilder ::
  "(jsval \<Rightarrow> string) \<Rightarrow> CursorQueryBuilderArgs \<Rightarrow> CursorQueryBuilderResponse outcome" where
  "cursorQueryBuilder toStr a =
    (let lim = dflt (Fin 10) (c_limit a);
         cursorField = dflt ''id'' (c_cursorField a);
         findArgs = cursor_findArgs a
     in \<lparr> calls = [FindMany findArgs],
          result =
            (case findMany (c_model a) findArgs of
               Inl e \<Rightarrow> Inl e
             | Inr results \<Rightarrow>
                 (let r = processCursorResults toStr results lim (Some cursorField)
                  in Inr \<lparr> cr_data = data_of r,
                           cr_meta = \<lparr> meta_nextCursor = nextCursor_of r,
                                       meta_hasMore = hasMore_of r, meta_climit = lim \<rparr> \<rparr>)) \<rparr>)"

record AdvancedQueryBuilderArgs =
  a_model :: model
  a_page :: "jsnum option"
  a_limit :: "jsnum option"
  a_search :: "string option"
  a_searchFields :: "string list option"
  a_filters :: "object option"
  a_relationFilters :: "object option"
  a_sortFields :: "(string \<times> sort_order) list option"
  a_include :: jsval
  a_select :: jsval

definition advancedQueryBuilder :: "AdvancedQueryBuilderArgs \<Rightarrow> QueryBuilderResponse outcome" where
  "advancedQueryBuilder a =
    (let pg = dflt (Fin 1) (a_page a);
         lim = dflt (Fin 10) (a_limit a);
         sortFields = dflt [(''createdAt'', desc)] (a_sortFields a);
         p = getPagination (Some pg) (Some lim);
         wh = build_where (a_search a) (a_searchFields a) (a_filters a) (a_relationFilters a);
         orderBy = JArr (map (\<lambda>(field, ord). JObj [(field, sort_order_str ord)]) sortFields);
         findArgs = JObj (spread (spread
                      [(''where'', JObj wh), (''take'', JNum (take_of p)), (''skip'', JNum (skip_of p)),
                       (''orderBy'', orderBy)]
                      (and_prop ''include'' (a_include a))) (and_prop ''select'' (a_select a)));
         countArgs = JObj [(''where'', JObj wh)]
     in \<lparr> calls = [FindMany findArgs, Count countArgs],
          result =
            (case Promise_all (count_rejects_first (a_model a))
                    (findMany (a_model a) findArgs) (count (a_model a) countArgs) of
               Inl e \<Rightarrow> Inl e
             | Inr (dat, tot) \<Rightarrow>
                 Inr \<lparr> qr_data = dat,
                       qr_meta = \<lparr> meta_total = tot, meta_page = pg, meta_limit = take_of p,
                                   meta_totalPages = Math_ceil (js_div tot (take_of p)) \<rparr> \<rparr>) \<rparr>)"

record CountQueryArgs =
  n_model :: model
  n_filters :: "object option"
  n_relationFilters :: "object option"
  n_search :: "string option"
  n_searchFields :: "string list option"

definition countQuery :: "CountQueryArgs \<Rightarrow> jsnum outcome" where
  "countQuery a =
    (let wh = build_where (n_search a) (n_searchFields a) (n_filters a) (n_relationFilters a);
         countArgs = JObj [(''where'', JObj wh)]
     in \<lparr> calls = [Count countArgs], result = count (n_model a) countArgs \<rparr>)"

definition aggregateQuery :: "CountQueryArgs \<Rightarrow> object \<Rightarrow> jsval outcome" where
  "aggregateQuery a aggregations =
    (let wh = build_where (n_search a) (n_searchFields a) (n_filters a) (n_relationFilters a);
         aggArgs = JObj (spread [(''where'', JObj wh)] aggregations)
     in \<lparr> calls = [Aggregate aggArgs], result = aggregate (n_model a) aggArgs \<rparr>)"

section \<open>Notions used to state the properties\<close>

text \<open>A number is a finite value between two bounds.\<close>

fun in_range :: "real \<Rightarrow> real \<Rightarrow> jsnum \<Rightarrow> bool" where
  "in_range lo hi (Fin x) = (lo \<le> x \<and> x \<le> hi)"
| "in_range lo hi x = False"

text \<open>
  \<open>String(v)\<close> on the values whose conversion does not depend on the runtime's number
  and date formatting; the examples below use it on strings only.
\<close>

fun String_simple :: "jsval \<Rightarrow> string" where
  "String_simple (JStr s) = s"
| "String_simple Undefined = ''undefined''"
| "String_simple Null = ''null''"
| "String_simple (JBool b) = (if b then ''true'' else ''false'')"
| "String_simple v = []"

text \<open>
  The dispatch of the filter builder in the words of its description, value by value:
  what one filter value contributes to the result (\<open>None\<close>: the key is left out).
  A numeric bound is kept unless it is \<open>undefined\<close>; a date bound is kept, converted
  by \<open>new Date\<close>, unless it is falsy.
\<close>

fun is_number :: "jsval \<Rightarrow> bool" where
  "is_number (JNum n) = True"
| "is_number v = False"

fun is_string_or_Date :: "jsval \<Rightarrow> bool" where
  "is_string_or_Date (JStr s) = True"
| "is_string_or_Date (JDate d) = True"
| "is_string_or_Date v = False"

definition number_bound :: "string \<Rightarrow> jsval \<Rightarrow> object" where
  "number_bound k v = (if v = Undefined then [] else [(k, v)])"

definition date_bound :: "string \<Rightarrow> jsval \<Rightarrow> object" where
  "date_bound k v = (if truthy v then [(k, new_Date v)] else [])"

fun spec_filter_dispatch :: "jsval \<Rightarrow> jsval option" where
  "spec_filter_dispatch Undefined = None"
| "spec_filter_dispatch Null = None"
| "spec_filter_dispatch (JStr s) = (if s = [] then None else Some (JStr s))"
| "spec_filter_dispatch (JObj ps) =
     (let lo = get_prop ps ''from''; hi = get_prop ps ''to''
      in if is_number lo \<or> is_number hi
         then Some (JObj (number_bound ''gte'' lo @ number_bound ''lte'' hi))
         else if is_string_or_Date lo \<or> is_string_or_Date hi
         then Some (JObj (date_bound ''gte'' lo @ date_bound ''lte'' hi))
         else Some (JObj ps))"
| "spec_filter_dispatch (JArr xs) = (if xs = [] then None else Some (JObj [(''in'', JArr xs)]))"
| "spec_filter_dispatch (JBool b) = Some (JBool b)"
| "spec_filter_dispatch (JNum n) = Some (JNum n)"
| "spec_filter_dispatch (JDate d) = Some (JDate d)"

text \<open>
  Collaborators for the examples, as the test-suite's mocks: one that fulfils every
  call with fixed values, and one whose \<open>count\<close> (or every operation) rejects.
\<close>

definition mockModel :: "object list \<Rightarrow> jsnum \<Rightarrow> model" where
  "mockModel rows n =
    \<lparr> findMany = (\<lambda>args. Inr rows), count = (\<lambda>args. Inr n),
      aggregate = (\<lambda>args. Inr (JObj [(''_count'', JNum n)])), count_rejects_first = False \<rparr>"

definition failingCount :: "object list \<Rightarrow> jsval \<Rightarrow> model" where
  "failingCount rows e =
    \<lparr> findMany = (\<lambda>args. Inr rows), count = (\<lambda>args. Inl e),
      aggregate = (\<lambda>args. Inl e), count_rejects_first = False \<rparr>"

definition failingModel :: "jsval \<Rightarrow> jsval \<Rightarrow> bool \<Rightarrow> model" where
  "failingModel e1 e2 cf =
    \<lparr> findMany = (\<lambda>args. Inl e1), count = (\<lambda>args. Inl e2),
      aggregate = (\<lambda>args. Inl e2), count_rejects_first = cf \<rparr>"

text \<open>The call of the integration test of \<open>cursorQueryBuilder\<close>, for a given \<open>sortBy\<close>.\<close>

definition ex_cursor_args :: "string option \<Rightarrow> CursorQueryBuilderArgs" where
  "ex_cursor_args sb =
    \<lparr> c_model = mockModel [[(''id'', JStr ''a'')], [(''id'', JStr ''b'')], [(''id'', JStr ''c'')]] (Fin 3),
      c_cursor = Some ''cursor-1'', c_limit = Some (Fin 2), c_search = Some ''live'',
      c_searchFields = Some [''title''], c_filters = Some [(''status'', JStr ''LIVE'')],
      c_relationFilters = None, c_sortBy = sb, c_sortOrder = Some desc,
      c_include = JObj [(''speakers'', JBool True)], c_select = Undefined, c_cursorField = None \<rparr>"

text \<open>The calls of the integration tests of the other orchestrators, for a given collaborator.\<close>

definition ex_query_args :: "model \<Rightarrow> string \<Rightarrow> QueryBuilderArgs" where
  "ex_query_args m s =
    \<lparr> q_model = m, q_page = Some (Fin 2), q_limit = Some (Fin 10), q_search = Some s,
      q_searchFields = Some [''email''], q_filters = Some [(''status'', JStr ''ACTIVE'')],
      q_relationFilters = None, q_sortBy = Some ''createdAt'', q_sortOrder = Some desc,
      q_include = JObj [(''profile'', JBool True)], q_select = JObj [(''id'', JBool True)] \<rparr>"

definition ex_advanced_args :: "model \<Rightarrow> AdvancedQueryBuilderArgs" where
  "ex_advanced_args m =
    \<lparr> a_model = m, a_page = Some (Fin 1), a_limit = Some (Fin 5), a_search = Some ''john'',
      a_searchFields = Some [''email''], a_filters = Some [(''status'', JStr ''ACTIVE'')],
      a_relationFilters = None, a_sortFields = Some [(''createdAt'', desc), (''email'', asc)],
      a_include = Undefined, a_select = Undefined \<rparr>"

definition ex_count_args :: "model \<Rightarrow> CountQueryArgs" where
  "ex_count_args m =
    \<lparr> n_model = m, n_filters = Some [(''isActive'', JBool True)], n_relationFilters = None,
      n_search = Some ''john'', n_searchFields = Some [''email''] \<rparr>"

section \<open>Rounding to binary64\<close>

text \<open>
  Facts about \<open>round64\<close>: the relative error of rounding a positive value of the normal
  range is at most \<open>2 ^ (-53)\<close>; an integer of magnitude at most \<open>2 ^ 53\<close> is not changed;
  the ceiling of a rounded quotient of a count below \<open>2 ^ 53\<close> by a positive integer is
  the ceiling of the exact quotient; \<open>round64\<close> is computed from the binade of its
  argument; and a value of \<open>2 ^ 1024\<close> or more overflows.
\<close>

lemma round_even_int [simp]: "round_even (of_int n) = n"
  by (simp add: round_even_def)


lemma floor_log2_bounds:
  assumes "0 < x"
  shows "2 powr of_int \<lfloor>log 2 x\<rfloor> \<le> x" and "x < 2 powr of_int (\<lfloor>log 2 x\<rfloor> + 1)"
  using floor_log_eq_powr_iff [of x 2 "\<lfloor>log 2 x\<rfloor>"] assms by simp_all

lemma floor_log2_ge:
  assumes "0 < x" and "2 powr of_int k \<le> x"
  shows "k \<le> \<lfloor>log 2 x\<rfloor>"
proof -
  have "(2::real) powr of_int k < 2 powr of_int (\<lfloor>log 2 x\<rfloor> + 1)"
    using assms floor_log2_bounds(2) [of x] by linarith
  then have "k < \<lfloor>log 2 x\<rfloor> + 1"
    by simp
  then show ?thesis by linarith
qed

lemma floor_log2_le:
  assumes "0 < x" and "x < 2 powr of_int (k + 1)"
  shows "\<lfloor>log 2 x\<rfloor> \<le> k"
proof -
  have "(2::real) powr of_int \<lfloor>log 2 x\<rfloor> < 2 powr of_int (k + 1)"
    using assms floor_log2_bounds(1) [of x] by linarith
  then have "\<lfloor>log 2 x\<rfloor> < k + 1"
    by simp
  then show ?thesis by linarith
qed


lemma round64_exact:
  assumes "x \<noteq> 0" and "x / 2 powr (of_int (binade x - 52)) = of_int m" and "\<bar>x\<bar> < 2 ^ 1024"
  shows "round64 x = Fin x"
proof -
  let ?q = "(2::real) powr (of_int (binade x - 52))"
  have "0 < ?q" by simp
  then have "of_int m * ?q = x" using assms(2) by (simp add: field_simps)
  then have "of_int (round_even (x / ?q)) * ?q = x" using assms(2) by simp
  then show ?thesis using assms(1,3) by (simp add: round64_def Let_def)
qed

lemma round64_int:
  assumes "\<bar>n\<bar> \<le> 2 ^ 53"
  shows "round64 (of_int n) = Fin (of_int n)"
proof (cases "n = 0")
  case True
  then show ?thesis by (simp add: round64_def)
next
  case False
  let ?x = "real_of_int n"
  let ?e = "\<lfloor>log 2 \<bar>?x\<bar>\<rfloor>"
  have ax: "1 \<le> \<bar>?x\<bar>"
  proof -
    have "1 \<le> \<bar>n\<bar>" using False by linarith
    then have "real_of_int 1 \<le> real_of_int \<bar>n\<bar>" by (simp only: of_int_le_iff)
    then show ?thesis by simp
  qed
  have ax2: "\<bar>?x\<bar> \<le> 2 ^ 53"
  proof -
    have "real_of_int \<bar>n\<bar> \<le> real_of_int (2 ^ 53)" using assms by (simp only: of_int_le_iff)
    then show ?thesis by simp
  qed
  have pos: "0 < \<bar>?x\<bar>" using ax by linarith
  have e0: "0 \<le> ?e" using floor_log2_ge [of "\<bar>?x\<bar>" 0] pos ax by simp
  have e53: "?e \<le> 53"
  proof -
    have "(2::real) ^ 53 < 2 powr of_int (53 + 1)" by (simp add: powr_int)
    then show ?thesis using floor_log2_le [of "\<bar>?x\<bar>" 53] pos ax2 by linarith
  qed
  have b: "binade ?x = ?e" using e0 by (simp add: binade_def)
  have "\<exists>m. ?x / 2 powr (of_int (?e - 52)) = of_int m"
  proof (cases "?e \<le> 52")
    case True
    define i where "i = ?e - 52"
    have i0: "i \<le> 0" using True by (simp add: i_def)
    have "(2::real) powr (of_int i) = (if 0 \<le> i then 2 ^ nat i else 1 / 2 ^ nat (- i))"
      by (rule powr_int) simp
    then have "(2::real) powr (of_int i) = 1 / 2 ^ nat (- i)"
      using i0 by (cases "i = 0") simp_all
    then have "(2::real) powr (of_int (?e - 52)) = 1 / 2 ^ nat (52 - ?e)"
      by (simp add: i_def)
    then have "?x / 2 powr (of_int (?e - 52)) = of_int (n * 2 ^ nat (52 - ?e))" by simp
    then show ?thesis by blast
  next
    case False
    then have e: "?e = 53" using e53 by linarith
    then have "(2::real) powr of_int 53 \<le> \<bar>?x\<bar>" using floor_log2_bounds(1) [OF pos] by simp
    then have "(2::real) ^ 53 \<le> \<bar>?x\<bar>" by (simp add: powr_int)
    then have "\<bar>?x\<bar> = 2 ^ 53" using ax2 by linarith
    then have "real_of_int \<bar>n\<bar> = real_of_int (2 ^ 53)" by simp
    then have "\<bar>n\<bar> = 2 ^ 53" by (simp only: of_int_eq_iff)
    then have "even n" by (simp add: abs_if split: if_splits) presburger+
    then obtain h where "n = 2 * h" by (auto elim: evenE)
    moreover have "(2::real) powr (of_int (?e - 52)) = 2" using e by simp
    ultimately have "?x / 2 powr (of_int (?e - 52)) = of_int h" by simp
    then show ?thesis by blast
  qed
  then obtain m where "?x / 2 powr (of_int (binade ?x - 52)) = of_int m" using b by auto
  moreover have "\<bar>?x\<bar> < 2 ^ 1024"
  proof -
    have "(2::real) ^ 53 < 2 ^ 1024" by (rule power_strict_increasing) simp_all
    then show ?thesis using ax2 by linarith
  qed
  moreover have "?x \<noteq> 0" using False by simp
  ultimately show ?thesis by (rule round64_exact [rotated])
qed



lemma round64_simps [simp]:
  "round64 0 = Fin 0"
  "round64 1 = Fin 1"
  "numeral w \<le> (2 ^ 53 :: int) \<Longrightarrow> round64 (numeral w) = Fin (numeral w)"
  "numeral w \<le> (2 ^ 53 :: int) \<Longrightarrow> round64 (- numeral w) = Fin (- numeral w)"
  using round64_int [of 0] round64_int [of 1] round64_int [of "numeral w"]
        round64_int [of "- numeral w"]
  by simp_all


lemma round64_eval:
  assumes "x \<noteq> 0" and "- 1022 \<le> e" and "2 powr of_int e \<le> \<bar>x\<bar>" and "\<bar>x\<bar> < 2 powr of_int (e + 1)"
  shows "round64 x =
          (let q = 2 powr (of_int (e - 52)); y = of_int (round_even (x / q)) * q
           in if 2 ^ 1024 \<le> \<bar>y\<bar> then (if 0 < x then PosInf else NegInf) else Fin y)"
proof -
  have pos: "0 < \<bar>x\<bar>" using assms(1) by simp
  have "\<lfloor>log 2 \<bar>x\<bar>\<rfloor> = e"
    using floor_log_eq_powr_iff [of "\<bar>x\<bar>" 2 e] pos assms(3,4) by simp
  then have "binade x = e" using assms(2) by (simp add: binade_def)
  then show ?thesis using assms(1) by (simp add: round64_def)
qed

lemma round_even_ge_floor: "\<lfloor>m\<rfloor> \<le> round_even m"
  by (simp add: round_even_def Let_def)

lemma round64_overflow:
  assumes "2 ^ 1024 \<le> x"
  shows "round64 x = PosInf"
proof -
  have "(0::real) < 2 ^ 1024" by simp
  then have pos: "0 < x" using assms by linarith
  let ?e = "\<lfloor>log 2 x\<rfloor>"
  have "(2::real) powr of_int 1024 \<le> x" using assms by (simp add: powr_int)
  then have e: "1024 \<le> ?e" using floor_log2_ge [OF pos, of 1024] by simp
  then have b: "binade x = ?e" using pos by (simp add: binade_def)
  let ?q = "(2::real) powr (of_int (?e - 52))"
  have qpos: "0 < ?q" by simp
  have "2 powr of_int ?e \<le> x" using floor_log2_bounds(1) [OF pos] .
  moreover have "(2::real) powr of_int ?e = 2 powr 52 * ?q"
  proof -
    have "(2::real) powr 52 * ?q = 2 powr (52 + of_int (?e - 52))" by (simp only: powr_add)
    then show ?thesis by simp
  qed
  ultimately have "2 powr 52 * ?q \<le> x" by simp
  then have "(2::real) powr 52 \<le> x / ?q" using qpos by (simp add: pos_le_divide_eq)
  then have "(2::real) ^ 52 \<le> x / ?q" by simp
  then have "of_int (2 ^ 52) \<le> x / ?q" by simp
  then have "(2 ^ 52 :: int) \<le> \<lfloor>x / ?q\<rfloor>" by (simp only: le_floor_iff)
  then have "(2 ^ 52 :: int) \<le> round_even (x / ?q)"
    using round_even_ge_floor [of "x / ?q"] by linarith
  then have "real_of_int (2 ^ 52) \<le> of_int (round_even (x / ?q))" by (simp only: of_int_le_iff)
  then have "(2::real) powr 52 \<le> of_int (round_even (x / ?q))" by simp
  then have "2 powr 52 * ?q \<le> of_int (round_even (x / ?q)) * ?q"
    using qpos by (simp only: mult_le_cancel_right_pos)
  then have "2 powr of_int ?e \<le> of_int (round_even (x / ?q)) * ?q"
    using \<open>(2::real) powr of_int ?e = 2 powr 52 * ?q\<close> by simp
  moreover have "(2::real) powr of_int 1024 \<le> 2 powr of_int ?e"
    using e by (intro powr_mono) simp_all
  ultimately have "(2::real) ^ 1024 \<le> of_int (round_even (x / ?q)) * ?q"
    by (simp add: powr_int)
  then have "(2::real) ^ 1024 \<le> \<bar>of_int (round_even (x / ?q)) * ?q\<bar>" by linarith
  then show ?thesis using pos b by (simp add: round64_def Let_def)
qed

text \<open>
  The rounding at three points where it shows: the product \<open>3002399751580331 * 3\<close>
  (a \<open>skip\<close> one above \<open>2 ^ 53\<close>) is rounded down by 1; the quotient of 7 by the binary64
  value nearest 1.4 is rounded to 5; a product of \<open>2 ^ 1024\<close> or more overflows.
\<close>

lemma round64_examples:
  "js_mul (js_sub (Fin 3002399751580332) (Fin 1)) (Fin 3) = Fin 9007199254740992"
  "Math_ceil (js_div (Fin 7) (Fin (6305039478318694 / 2 ^ 52))) = Fin 5"
  "js_mul (Fin (2 ^ 1023)) (Fin 10) = PosInf"
proof -
  have a: "round64 3002399751580331 = Fin 3002399751580331"
    by simp
  have "round64 9007199254740993 = Fin 9007199254740992"
    by (subst round64_eval [of _ 53]) (simp_all add: round_even_def Let_def)
  then show "js_mul (js_sub (Fin 3002399751580332) (Fin 1)) (Fin 3) = Fin 9007199254740992"
    using a by (simp add: js_sub_def)
  have "round64 (7 / (6305039478318694 / 2 ^ 52)) = Fin 5"
    by (subst round64_eval [of _ 2]) (simp_all add: round_even_def Let_def powr_minus_divide)
  then show "Math_ceil (js_div (Fin 7) (Fin (6305039478318694 / 2 ^ 52))) = Fin 5"
    by simp
  have "(2::real) ^ 1024 = 2 ^ 1023 * 2" by simp
  also have "\<dots> \<le> 2 ^ 1023 * 10" by (intro mult_left_mono) simp_all
  finally show "js_mul (Fin (2 ^ 1023)) (Fin 10) = PosInf"
    by (simp add: round64_overflow)
qed

section \<open>Offset pagination\<close>

text \<open>
  \<open>getPagination\<close> on numbers other than \<open>NaN\<close>. It is a total function: it never
  throws. \<open>take\<close> is \<open>limit\<close> clamped to \<open>[1, 100]\<close>, the infinities included, and
  \<open>skip\<close> is \<open>(max(1, page) - 1) * take\<close> in the arithmetic of numbers; for an integer
  \<open>page \<ge> 1\<close> and an integer \<open>limit\<close> in \<open>[1, 100]\<close> whose product stays within \<open>2 ^ 53\<close>,
  \<open>take = limit\<close> and \<open>skip = (page - 1) * limit\<close> exactly.
\<close>

lemma getPagination_finite:
  "take_of (getPagination pa (Some (Fin l))) = Fin (min (max 1 l) 100)"
  "skip_of (getPagination (Some (Fin p)) (Some (Fin l))) =
     js_mul (js_sub (Fin (max 1 p)) (Fin 1)) (Fin (min (max 1 l) 100))"
  "take_of (getPagination pa (Some PosInf)) = Fin 100"
  "take_of (getPagination pa (Some NegInf)) = Fin 1"
  "getPagination None None = \<lparr> take_of = Fin 10, skip_of = Fin 0 \<rparr>"
  by (simp_all add: getPagination_def dflt_def MAX_LIMIT_def DEFAULT_LIMIT_def Let_def js_sub_def)


lemma getPagination_integers:
  assumes "1 \<le> p" and "1 \<le> l" and "l \<le> 100" and "(p - 1) * l \<le> 2 ^ 53"
  shows "getPagination (Some (Fin (of_int p))) (Some (Fin (of_int l))) =
           \<lparr> take_of = Fin (of_int l), skip_of = Fin (of_int ((p - 1) * l)) \<rparr>"
proof -
  have "p - 1 \<le> (p - 1) * l" using assms(1,2) by (simp add: mult_le_cancel_left1)
  then have a: "\<bar>p - 1\<bar> \<le> 2 ^ 53" using assms(1,4) by linarith
  have b: "\<bar>(p - 1) * l\<bar> \<le> 2 ^ 53" using assms by (simp add: abs_mult)
  have "real_of_int p + - 1 = of_int (p - 1)" by simp
  then have s: "round64 (real_of_int p + - 1) = Fin (of_int (p - 1))"
    using round64_int [OF a] by simp
  have "real_of_int (p - 1) * real_of_int l = of_int ((p - 1) * l)" by simp
  then have m: "round64 (real_of_int (p - 1) * real_of_int l) = Fin (of_int ((p - 1) * l))"
    using round64_int [OF b] by (simp only:)
  have "max 1 (real_of_int p) = of_int p" "min (max 1 (real_of_int l)) 100 = of_int l"
    using assms(1,2,3) by (simp_all add: max_def min_def)
  then show ?thesis
    using s m
    by (simp add: getPagination_def dflt_def MAX_LIMIT_def Let_def js_sub_def del: of_int_diff of_int_mult)
qed

text \<open>
  C3. The claim holds for every number other than \<open>NaN\<close>, and the comments of the code
  say the same (page at least 1, limit capped). At \<open>NaN\<close> the code misses the clamp:
  \<open>Math.max\<close> and \<open>Math.min\<close> pass \<open>NaN\<close> on, so a \<open>NaN\<close> limit gives \<open>take = NaN\<close> and
  \<open>skip = NaN\<close>, not a value in \<open>[1, 100]\<close>, and a \<open>NaN\<close> page gives \<open>skip = NaN\<close>.
\<close>

theorem getPagination_NaN:
  "take_of (getPagination (Some (Fin 1)) (Some NaN)) = NaN
   \<and> skip_of (getPagination (Some (Fin 1)) (Some NaN)) = NaN
   \<and> \<not> in_range 1 100 (take_of (getPagination (Some (Fin 1)) (Some NaN)))
   \<and> skip_of (getPagination (Some NaN) (Some (Fin 10))) = NaN"
  by (simp add: getPagination_def dflt_def MAX_LIMIT_def Let_def js_sub_def)

section \<open>Cursor pagination\<close>




section \<open>Reconciling an over-fetched result list\<close>

lemma trunc_of_nat [simp]: "trunc (real n) = int n"
  by (simp add: trunc_def)

lemma slice0_nat [simp]: "slice0 xs (Fin (real n)) = List.take n xs"
  by (simp add: Let_def)

text \<open>
  C5 (as the code has it). On a result list of length \<open>limit + 1\<close>, \<open>processCursorResults\<close>
  drops exactly the trailing element (\<open>data\<close> is the first \<open>limit\<close> elements) and sets
  \<open>hasMore\<close>; when the new last element carries the cursor field, \<open>nextCursor\<close> is that
  field's value converted by \<open>String\<close>, and when it does not (the value is \<open>undefined\<close>),
  \<open>nextCursor\<close> is \<open>null\<close>; when \<open>limit = 0\<close> the trimmed list is empty and \<open>nextCursor\<close>
  stays \<open>null\<close>. On a list of length at most \<open>limit\<close> the list is returned unchanged with
  \<open>hasMore = false\<close> and \<open>nextCursor = null\<close>. Whenever \<open>hasMore\<close> holds and the trimmed
  list is empty, \<open>nextCursor\<close> is \<open>null\<close>.
\<close>

theorem processCursorResults_trims:
  "(length results = Suc n \<longrightarrow>
      data_of (processCursorResults toStr results (Fin (real n)) cf) = List.take n results
    \<and> data_of (processCursorResults toStr results (Fin (real n)) cf) = butlast results
    \<and> hasMore_of (processCursorResults toStr results (Fin (real n)) cf)
    \<and> (1 \<le> n \<and> get_prop (results ! (n - 1)) (dflt ''id'' cf) \<noteq> Undefined \<longrightarrow>
         nextCursor_of (processCursorResults toStr results (Fin (real n)) cf)
           = Some (toStr (get_prop (results ! (n - 1)) (dflt ''id'' cf))))
    \<and> (1 \<le> n \<and> get_prop (results ! (n - 1)) (dflt ''id'' cf) = Undefined \<longrightarrow>
         nextCursor_of (processCursorResults toStr results (Fin (real n)) cf) = None)
    \<and> (n = 0 \<longrightarrow> nextCursor_of (processCursorResults toStr results (Fin (real n)) cf) = None))
   \<and> (real (length results) \<le> l \<longrightarrow>
        processCursorResults toStr results (Fin l) cf
          = \<lparr> data_of = results, hasMore_of = False, nextCursor_of = None \<rparr>)
   \<and> (hasMore_of (processCursorResults toStr results lm cf)
        \<and> data_of (processCursorResults toStr results lm cf) = [] \<longrightarrow>
        nextCursor_of (processCursorResults toStr results lm cf) = None)"
proof (intro conjI impI)
  assume len: "length results = Suc n"
  show "data_of (processCursorResults toStr results (Fin (real n)) cf) = List.take n results"
    using len by (simp add: processCursorResults_def Let_def)
  show "data_of (processCursorResults toStr results (Fin (real n)) cf) = butlast results"
    using len by (simp add: processCursorResults_def Let_def butlast_conv_take)
  show "hasMore_of (processCursorResults toStr results (Fin (real n)) cf)"
    using len by (simp add: processCursorResults_def Let_def)
  {
    assume h: "1 \<le> n \<and> get_prop (results ! (n - 1)) (dflt ''id'' cf) \<noteq> Undefined"
    then show "nextCursor_of (processCursorResults toStr results (Fin (real n)) cf)
           = Some (toStr (get_prop (results ! (n - 1)) (dflt ''id'' cf)))"
      using len by (auto simp add: processCursorResults_def Let_def min_def)
  }
  {
    assume h: "1 \<le> n \<and> get_prop (results ! (n - 1)) (dflt ''id'' cf) = Undefined"
    then show "nextCursor_of (processCursorResults toStr results (Fin (real n)) cf) = None"
      using len by (auto simp add: processCursorResults_def Let_def min_def)
  }
  {
    assume "n = 0"
    then show "nextCursor_of (processCursorResults toStr results (Fin (real n)) cf) = None"
      using len by (simp add: processCursorResults_def Let_def trunc_def)
  }
next
  assume "real (length results) \<le> l"
  then show "processCursorResults toStr results (Fin l) cf
          = \<lparr> data_of = results, hasMore_of = False, nextCursor_of = None \<rparr>"
    by (simp add: processCursorResults_def Let_def)
next
  assume "hasMore_of (processCursorResults toStr results lm cf)
        \<and> data_of (processCursorResults toStr results lm cf) = []"
  then show "nextCursor_of (processCursorResults toStr results lm cf) = None"
    by (auto simp add: processCursorResults_def Let_def)
qed

theorem processCursorResults_trims_witness:
  "processCursorResults String_simple
      [[(''id'', JStr ''a'')], [(''id'', JStr ''b'')], [(''id'', JStr ''c'')]] (Fin 2) None
     = \<lparr> data_of = [[(''id'', JStr ''a'')], [(''id'', JStr ''b'')]], hasMore_of = True,
         nextCursor_of = Some ''b'' \<rparr>
   \<and> processCursorResults String_simple [[(''id'', JStr ''a'')]] (Fin 2) None
     = \<lparr> data_of = [[(''id'', JStr ''a'')]], hasMore_of = False, nextCursor_of = None \<rparr>
   \<and> processCursorResults String_simple [[(''id'', JStr ''a'')]] (Fin 0) None
     = \<lparr> data_of = [], hasMore_of = True, nextCursor_of = None \<rparr>"
  using processCursorResults_trims
          [of "[[(''id'', JStr ''a'')], [(''id'', JStr ''b'')], [(''id'', JStr ''c'')]]" 2
              String_simple None 3 "Fin 2"]
        processCursorResults_trims [of "[[(''id'', JStr ''a'')]]" 0 String_simple None 2 "Fin 0"]
  by (simp add: dflt_def get_prop_def)

text \<open>
  C5 as stated fails when the new last element lacks the cursor field: for the three
  rows \<open>{id: "a"}\<close>, \<open>{name: "b"}\<close>, \<open>{id: "c"}\<close> and \<open>limit = 2\<close> the list has length
  \<open>limit + 1\<close>, and \<open>nextCursor\<close> is \<open>null\<close>, not the conversion of the (undefined) value of
  \<open>id\<close> on the row \<open>{name: "b"}\<close>.
\<close>

theorem processCursorResults_trims_counterexample:
  "length [[(''id'', JStr ''a'')], [(''name'', JStr ''b'')], [(''id'', JStr ''c'')]] = 2 + 1
   \<and> processCursorResults String_simple
        [[(''id'', JStr ''a'')], [(''name'', JStr ''b'')], [(''id'', JStr ''c'')]] (Fin 2) None
       = \<lparr> data_of = [[(''id'', JStr ''a'')], [(''name'', JStr ''b'')]], hasMore_of = True,
           nextCursor_of = None \<rparr>
   \<and> nextCursor_of (processCursorResults String_simple
        [[(''id'', JStr ''a'')], [(''name'', JStr ''b'')], [(''id'', JStr ''c'')]] (Fin 2) None)
       \<noteq> Some (String_simple (get_prop [(''name'', JStr ''b'')] ''id''))"
  by (simp add: processCursorResults_def Let_def dflt_def get_prop_def trunc_def)

text \<open>
  C10. When more than \<open>limit\<close> rows came back but the last retained row has no cursor
  field (its value is \<open>undefined\<close>), \<open>nextCursor\<close> is \<open>null\<close>, not the conversion of
  \<open>undefined\<close>; and whenever \<open>nextCursor\<close> is a string, it is the conversion of a cursor
  field that exists on the last retained row.
\<close>

theorem processCursorResults_missing_field:
  "(hasMore_of (processCursorResults toStr results lm cf)
      \<and> data_of (processCursorResults toStr results lm cf) \<noteq> []
      \<and> get_prop (last (data_of (processCursorResults toStr results lm cf))) (dflt ''id'' cf) = Undefined
      \<longrightarrow> nextCursor_of (processCursorResults toStr results lm cf) = None)
   \<and> (nextCursor_of (processCursorResults toStr results lm cf) = Some s \<longrightarrow>
        hasMore_of (processCursorResults toStr results lm cf)
      \<and> data_of (processCursorResults toStr results lm cf) \<noteq> []
      \<and> get_prop (last (data_of (processCursorResults toStr results lm cf))) (dflt ''id'' cf) \<noteq> Undefined
      \<and> s = toStr (get_prop (last (data_of (processCursorResults toStr results lm cf))) (dflt ''id'' cf)))"
  by (auto simp add: processCursorResults_def Let_def last_conv_nth split: if_splits)

theorem processCursorResults_missing_field_witness:
  "nextCursor_of (processCursorResults String_simple
      [[(''id'', JStr ''a'')], [(''name'', JStr ''b'')], [(''id'', JStr ''c'')]] (Fin 2) None) = None
   \<and> hasMore_of (processCursorResults String_simple
      [[(''id'', JStr ''a'')], [(''name'', JStr ''b'')], [(''id'', JStr ''c'')]] (Fin 2) None)
   \<and> nextCursor_of (processCursorResults String_simple
      [[(''id'', JStr ''a'')], [(''id'', JStr ''b'')], [(''id'', JStr ''c'')]] (Fin 2) None) = Some ''b''
   \<and> get_prop (last (data_of (processCursorResults String_simple
      [[(''id'', JStr ''a'')], [(''id'', JStr ''b'')], [(''id'', JStr ''c'')]] (Fin 2) None))) ''id''
       = JStr ''b''"
  using processCursorResults_missing_field
          [of String_simple "[[(''id'', JStr ''a'')], [(''name'', JStr ''b'')], [(''id'', JStr ''c'')]]"
              "Fin 2" None "''b''"]
        processCursorResults_missing_field
          [of String_simple "[[(''id'', JStr ''a'')], [(''id'', JStr ''b'')], [(''id'', JStr ''c'')]]"
              "Fin 2" None "''b''"]
  by (simp add: processCursorResults_def Let_def dflt_def get_prop_def trunc_def)

section \<open>Search\<close>

lemma dropWhile_hd_not: "dropWhile P xs \<noteq> [] \<Longrightarrow> \<not> P (hd (dropWhile P xs))"
  by (simp add: hd_dropWhile)

lemma dropWhile_decomp:
  "dropWhile is_ws s = trim s @ rev (takeWhile is_ws (rev (dropWhile is_ws s)))"
proof -
  let ?d = "dropWhile is_ws s"
  show ?thesis
    unfolding trim_def
    by (metis rev_append rev_rev_ident takeWhile_dropWhile_id)
qed

lemma trim_decomp:
  "s = takeWhile is_ws s @ trim s @ rev (takeWhile is_ws (rev (dropWhile is_ws s)))"
proof -
  have "s = takeWhile is_ws s @ dropWhile is_ws s" by simp
  then show ?thesis using dropWhile_decomp [of s] by simp
qed

lemma trim_empty_iff: "trim s = [] \<longleftrightarrow> (\<forall>c \<in> set s. is_ws c)"
proof
  assume t: "trim s = []"
  have post: "\<forall>c \<in> set (takeWhile is_ws (rev (dropWhile is_ws s))). is_ws c"
    by (auto dest: set_takeWhileD)
  have "dropWhile is_ws s = rev (takeWhile is_ws (rev (dropWhile is_ws s)))"
    using dropWhile_decomp [of s] t by simp
  then have a: "\<forall>c \<in> set (dropWhile is_ws s). is_ws c"
    using post by (metis set_rev)
  have "dropWhile is_ws s = []"
  proof (rule ccontr)
    assume ne: "dropWhile is_ws s \<noteq> []"
    then have "hd (dropWhile is_ws s) \<in> set (dropWhile is_ws s)" by simp
    with a have "is_ws (hd (dropWhile is_ws s))" by blast
    with dropWhile_hd_not [OF ne] show False by simp
  qed
  then show "\<forall>c \<in> set s. is_ws c" by (metis dropWhile_eq_Nil_conv)
next
  assume "\<forall>c \<in> set s. is_ws c"
  then have "dropWhile is_ws s = []" by (metis dropWhile_eq_Nil_conv)
  then show "trim s = []" unfolding trim_def by (simp only: rev.simps dropWhile.simps)
qed

lemma trim_ends:
  assumes ne: "trim s \<noteq> []"
  shows "\<not> is_ws (hd (trim s)) \<and> \<not> is_ws (last (trim s))"
proof -
  let ?d = "dropWhile is_ws s"
  let ?e = "dropWhile is_ws (rev ?d)"
  have e_ne: "?e \<noteq> []" using ne by (simp add: trim_def)
  have "last (trim s) = hd ?e" using e_ne by (simp add: trim_def last_rev)
  then have l: "\<not> is_ws (last (trim s))" using dropWhile_hd_not [OF e_ne] by simp
  have d_ne: "?d \<noteq> []" using e_ne by (metis dropWhile.simps(1) rev.simps(1))
  have "hd ?d = hd (trim s)"
    using dropWhile_decomp [of s] ne by (metis hd_append2)
  then have "\<not> is_ws (hd (trim s))" using dropWhile_hd_not [OF d_ne] by simp
  with l show ?thesis by simp
qed

text \<open>
  C7. \<open>buildSearchQuery\<close> returns \<open>undefined\<close> exactly when the term is missing, empty or
  made of white space only, or when the field list is empty. Otherwise it returns
  \<open>{OR: [...]}\<close> with, for each field in order, \<open>{[field]: {contains: t, mode: "insensitive"}}\<close>
  where \<open>t\<close> is the trimmed term: the term itself with a prefix and a suffix of white
  space removed (so its characters, and their case, are unchanged) and with no white
  space left at either end.
\<close>

theorem buildSearchQuery_spec:
  "(buildSearchQuery search flds = None \<longleftrightarrow>
      (search = None \<or> (\<exists>s. search = Some s \<and> (\<forall>c \<in> set s. is_ws c)) \<or> dflt [] flds = []))
   \<and> (\<not> (\<forall>c \<in> set s. is_ws c) \<and> fs \<noteq> [] \<longrightarrow>
        buildSearchQuery (Some s) (Some fs) =
          Some [(''OR'', JArr (map (\<lambda>field. JObj [(field, JObj [(''contains'', JStr (trim s)),
                                                              (''mode'', JStr ''insensitive'')])]) fs))])
   \<and> (\<exists>pre post. s = pre @ trim s @ post \<and> (\<forall>c \<in> set pre. is_ws c) \<and> (\<forall>c \<in> set post. is_ws c))
   \<and> (trim s \<noteq> [] \<longrightarrow> \<not> is_ws (hd (trim s)) \<and> \<not> is_ws (last (trim s)))"
proof (intro conjI)
  show "buildSearchQuery search flds = None \<longleftrightarrow>
      (search = None \<or> (\<exists>s. search = Some s \<and> (\<forall>c \<in> set s. is_ws c)) \<or> dflt [] flds = [])"
  proof (cases search)
    case None
    then show ?thesis by (simp add: buildSearchQuery_def)
  next
    case (Some t)
    have "t = [] \<Longrightarrow> trim t = []" by (simp add: trim_def)
    then show ?thesis using Some trim_empty_iff [of t]
      by (auto simp add: buildSearchQuery_def Let_def)
  qed
  show "\<not> (\<forall>c \<in> set s. is_ws c) \<and> fs \<noteq> [] \<longrightarrow>
        buildSearchQuery (Some s) (Some fs) =
          Some [(''OR'', JArr (map (\<lambda>field. JObj [(field, JObj [(''contains'', JStr (trim s)),
                                                              (''mode'', JStr ''insensitive'')])]) fs))]"
    using trim_empty_iff [of s] by (auto simp add: buildSearchQuery_def Let_def dflt_def)
  have "\<forall>c \<in> set (takeWhile is_ws s). is_ws c"
    by (auto dest: set_takeWhileD)
  moreover have "\<forall>c \<in> set (rev (takeWhile is_ws (rev (dropWhile is_ws s)))). is_ws c"
    by (auto dest: set_takeWhileD)
  ultimately show "\<exists>pre post. s = pre @ trim s @ post \<and> (\<forall>c \<in> set pre. is_ws c) \<and> (\<forall>c \<in> set post. is_ws c)"
    using trim_decomp [of s] by blast
  show "trim s \<noteq> [] \<longrightarrow> \<not> is_ws (hd (trim s)) \<and> \<not> is_ws (last (trim s))"
    using trim_ends by blast
qed

theorem buildSearchQuery_spec_witness:
  "buildSearchQuery (Some ''  John '') (Some [''email'', ''name'']) =
     Some [(''OR'', JArr [JObj [(''email'', JObj [(''contains'', JStr ''John''), (''mode'', JStr ''insensitive'')])],
                         JObj [(''name'', JObj [(''contains'', JStr ''John''), (''mode'', JStr ''insensitive'')])]])]
   \<and> buildSearchQuery (Some ''   '') (Some [''email'']) = None
   \<and> buildSearchQuery None (Some [''email'']) = None
   \<and> buildSearchQuery (Some ''x'') (Some []) = None
   \<and> \<not> is_ws (hd (trim ''  John '')) \<and> \<not> is_ws (last (trim ''  John ''))"
  using buildSearchQuery_spec [of "Some ''   ''" "Some [''email'']" "''  John ''" "[''email'', ''name'']"]
        buildSearchQuery_spec [of None "Some [''email'']" "''  John ''" "[''email'', ''name'']"]
        buildSearchQuery_spec [of "Some ''x''" "Some []" "''  John ''" "[''email'', ''name'']"]
  by (simp add: is_ws_def trim_def dflt_def)


section \<open>Filters\<close>

lemma map_of_set_prop: "map_of (set_prop ob k v) = (map_of ob)(k \<mapsto> v)"
  by (simp add: set_prop_def update_conv')

lemma is_number_typeof: "typeof v = ''number'' \<longleftrightarrow> is_number v"
  by (cases v) simp_all

lemma map_of_Some_key: "map_of ps k = Some v \<Longrightarrow> k \<in> fst ` set ps"
  by (metis map_of_eq_None_iff option.distinct(1))

lemma get_prop_in: "get_prop ps k \<noteq> Undefined \<Longrightarrow> has_prop ps k"
  by (auto simp add: get_prop_def has_prop_def split: option.splits dest: map_of_Some_key)

lemma isNumberRangeFilter_obj:
  "isNumberRangeFilter (JObj ps) \<longleftrightarrow> is_number (get_prop ps ''from'') \<or> is_number (get_prop ps ''to'')"
proof -
  have "is_number (get_prop ps k) \<Longrightarrow> has_prop ps k" for k
    by (rule get_prop_in) auto
  then show ?thesis
    by (auto simp add: isNumberRangeFilter_def is_number_typeof)
qed

lemma isDateLike_iff: "isDateLike v \<longleftrightarrow> is_string_or_Date v"
  by (cases v) simp_all

lemma isDateRangeFilter_obj:
  "isDateRangeFilter (JObj ps) \<longleftrightarrow>
     is_string_or_Date (get_prop ps ''from'') \<or> is_string_or_Date (get_prop ps ''to'')"
proof -
  have "is_string_or_Date (get_prop ps k) \<Longrightarrow> has_prop ps k" for k
    by (rule get_prop_in) auto
  moreover have "is_string_or_Date v \<Longrightarrow> v \<noteq> Undefined" for v
    by auto
  ultimately show ?thesis
    by (auto simp add: isDateRangeFilter_def isDateLike_iff Let_def)
qed

lemma buildNumberRangeFilter_obj:
  "buildNumberRangeFilter (JObj ps) =
     JObj (number_bound ''gte'' (get_prop ps ''from'') @ number_bound ''lte'' (get_prop ps ''to''))"
  by (simp add: buildNumberRangeFilter_def number_bound_def Let_def set_prop_def)

lemma buildDateRangeFilter_obj:
  "buildDateRangeFilter (JObj ps) =
     JObj (date_bound ''gte'' (get_prop ps ''from'') @ date_bound ''lte'' (get_prop ps ''to''))"
  by (simp add: buildDateRangeFilter_def date_bound_def Let_def set_prop_def)

lemma not_range_other:
  "\<not> isNumberRangeFilter Undefined" "\<not> isNumberRangeFilter Null" "\<not> isNumberRangeFilter (JStr s)"
  "\<not> isNumberRangeFilter (JArr xs)" "\<not> isNumberRangeFilter (JBool b)" "\<not> isNumberRangeFilter (JNum n)"
  "\<not> isNumberRangeFilter (JDate d)"
  "\<not> isDateRangeFilter Undefined" "\<not> isDateRangeFilter Null" "\<not> isDateRangeFilter (JStr s)"
  "\<not> isDateRangeFilter (JArr xs)" "\<not> isDateRangeFilter (JBool b)" "\<not> isDateRangeFilter (JNum n)"
  "\<not> isDateRangeFilter (JDate d)"
  by (simp_all add: isNumberRangeFilter_def isDateRangeFilter_def)

lemma buildFilters_step_dispatch:
  "buildFilters_step fs key wh =
     (case spec_filter_dispatch (get_prop fs key) of None \<Rightarrow> wh | Some r \<Rightarrow> set_prop wh key r)"
proof (cases "get_prop fs key")
  case (JObj ps)
  then show ?thesis
    by (simp add: buildFilters_step_def Let_def isNumberRangeFilter_obj isDateRangeFilter_obj
          buildNumberRangeFilter_obj buildDateRangeFilter_obj)
qed (simp_all add: buildFilters_step_def Let_def not_range_other)

lemma fold_buildFilters_step:
  assumes "\<forall>k. map_of wh k \<noteq> None \<longrightarrow> map_of wh k = spec_filter_dispatch (get_prop fs k)"
  shows "map_of (fold (buildFilters_step fs) ks wh) k =
           (if k \<in> set ks then spec_filter_dispatch (get_prop fs k) else map_of wh k)"
  using assms
proof (induction ks arbitrary: wh)
  case Nil
  then show ?case by simp
next
  case (Cons a ks)
  let ?wh = "buildFilters_step fs a wh"
  have step: "map_of ?wh = (map_of wh)(a := spec_filter_dispatch (get_prop fs a))"
  proof (cases "spec_filter_dispatch (get_prop fs a)")
    case None
    moreover have "map_of wh a = None" using Cons.prems None by (metis)
    ultimately show ?thesis by (simp add: buildFilters_step_dispatch fun_upd_idem)
  next
    case (Some r)
    then show ?thesis by (simp add: buildFilters_step_dispatch map_of_set_prop)
  qed
  have inv: "\<forall>k. map_of ?wh k \<noteq> None \<longrightarrow> map_of ?wh k = spec_filter_dispatch (get_prop fs k)"
    using Cons.prems by (simp add: step)
  show ?case
    using Cons.IH [OF inv] by (simp add: step)
qed

lemma distinct_set_prop: "distinct (map fst ob) \<Longrightarrow> distinct (map fst (set_prop ob k v))"
  by (simp add: set_prop_def distinct_update)

lemma distinct_fold_step:
  "distinct (map fst wh) \<Longrightarrow> distinct (map fst (fold (buildFilters_step fs) ks wh))"
proof (induction ks arbitrary: wh)
  case Nil
  then show ?case by simp
next
  case (Cons a ks)
  have "distinct (map fst (buildFilters_step fs a wh))"
    using Cons.prems by (simp add: buildFilters_step_dispatch distinct_set_prop split: option.splits)
  then show ?case using Cons.IH by simp
qed

text \<open>
  C6. \<open>buildFilters\<close> produces its output key by key: the result has a property \<open>k\<close>
  exactly when the filter map has one whose value the dispatch keeps, and its value is
  what the dispatch makes of it, in this order: \<open>undefined\<close>, \<open>null\<close> and \<open>""\<close> are
  left out; an object with a number-typed \<open>from\<close> or \<open>to\<close> becomes \<open>{gte?, lte?}\<close> with an
  absent bound omitted (checked before the date range); an object with a string- or
  \<open>Date\<close>-typed \<open>from\<close> or \<open>to\<close> becomes a date range whose bounds are converted by
  \<open>new Date\<close>; a non-empty array becomes \<open>{in: array}\<close> and an empty array is left out;
  a boolean is passed through; every other value, an object of no recognised range
  shape included, is passed through as an equality literal.
\<close>

theorem buildFilters_dispatch:
  "map_of (buildFilters fs) k =
     (case map_of fs k of None \<Rightarrow> None | Some v \<Rightarrow> spec_filter_dispatch v)
   \<and> distinct (map fst (buildFilters fs))"
proof
  have "map_of (buildFilters fs) k =
          (if k \<in> set (map fst fs) then spec_filter_dispatch (get_prop fs k) else None)"
    unfolding buildFilters_def by (subst fold_buildFilters_step) simp_all
  then show "map_of (buildFilters fs) k =
     (case map_of fs k of None \<Rightarrow> None | Some v \<Rightarrow> spec_filter_dispatch v)"
    by (auto simp add: get_prop_def map_of_eq_None_iff split: option.splits dest: map_of_Some_key)
  show "distinct (map fst (buildFilters fs))"
    unfolding buildFilters_def by (rule distinct_fold_step) simp
qed

text \<open>The examples of the description.\<close>

lemma buildFilters_examples:
  "buildFilters [(''a'', Undefined), (''b'', Null), (''c'', JStr []), (''d'', JArr [])] = []"
  "buildFilters [(''amount'', JObj [(''from'', JNum (Fin 10)), (''to'', JNum (Fin 20))])] =
     [(''amount'', JObj [(''gte'', JNum (Fin 10)), (''lte'', JNum (Fin 20))])]"
  "buildFilters [(''amount'', JObj [(''to'', JNum (Fin 20))])] =
     [(''amount'', JObj [(''lte'', JNum (Fin 20))])]"
  "buildFilters [(''createdAt'', JObj [(''from'', JStr ''2025-01-01'')]), (''status'', JArr [JStr ''A'']),
                 (''isActive'', JBool False), (''meta'', JObj [(''x'', Null)])] =
     [(''createdAt'', JObj [(''gte'', JDate (JStr ''2025-01-01''))]),
      (''status'', JObj [(''in'', JArr [JStr ''A''])]),
      (''isActive'', JBool False), (''meta'', JObj [(''x'', Null)])]"
  by (simp_all add: buildFilters_def buildFilters_step_dispatch get_prop_def set_prop_def
        number_bound_def date_bound_def)

text \<open>
  C8. \<open>combineFiltersWithOr\<close> first discards the objects with no keys; with no survivor
  it returns \<open>undefined\<close>, with exactly one it returns that object itself, with two or
  more it returns \<open>{OR: [survivors]}\<close>.
\<close>

theorem combineFiltersWithOr_spec:
  "combineFiltersWithOr filterObjects =
     (case filter (\<lambda>f. f \<noteq> []) filterObjects of
        [] \<Rightarrow> Undefined
      | [f] \<Rightarrow> JObj f
      | f # g # fs \<Rightarrow> JObj [(''OR'', JArr (map JObj (f # g # fs)))])"
  by (simp add: combineFiltersWithOr_def Let_def split: list.splits)

lemma combineFiltersWithOr_examples:
  "combineFiltersWithOr [[], [(''a'', JNum (Fin 1))]] = JObj [(''a'', JNum (Fin 1))]"
  "combineFiltersWithOr [[(''a'', JNum (Fin 1))], [(''b'', JNum (Fin 2))]] =
     JObj [(''OR'', JArr [JObj [(''a'', JNum (Fin 1))], JObj [(''b'', JNum (Fin 2))]])]"
  "combineFiltersWithOr [[], []] = Undefined"
  by (simp_all add: combineFiltersWithOr_def)

section \<open>Assembling the condition object\<close>

lemma map_of_spread:
  "map_of (spread a b) k = (case map_of (rev b) k of None \<Rightarrow> map_of a k | Some v \<Rightarrow> Some v)"
proof (induction b arbitrary: a)
  case Nil
  then show ?case by (simp add: spread_def)
next
  case (Cons x b)
  obtain k' v' where x: "x = (k', v')" by (cases x)
  have "spread a (x # b) = spread (set_prop a k' v') b"
    by (simp add: spread_def x)
  then show ?case
    using Cons.IH [of "set_prop a k' v'"]
    by (auto simp add: x map_of_set_prop map_add_def split: option.splits)
qed




lemma spread_Nil [simp]: "spread a [] = a"
  by (simp add: spread_def)



lemma buildRelationFilters_Nil [simp]: "buildRelationFilters [] = []"
  by (simp add: buildRelationFilters_def)





section \<open>Cursor query: ordering\<close>

lemma get_prop_spread_and_prop:
  "k \<noteq> k' \<Longrightarrow> get_prop (spread ob (and_prop k' v)) k = get_prop ob k"
  by (simp add: get_prop_def map_of_spread and_prop_def)

lemma get_prop_set_prop_same: "get_prop (set_prop ob k v) k = v"
  by (simp add: get_prop_def map_of_set_prop)

lemma cursor_findArgs_orderBy:
  "member (cursor_findArgs a) ''orderBy'' =
     cursor_orderBy (c_sortBy a) (dflt ''id'' (c_cursorField a)) (dflt desc (c_sortOrder a))"
  by (simp add: cursor_findArgs_def Let_def get_prop_spread_and_prop get_prop_set_prop_same)

text \<open>
  C2. \<open>cursorQueryBuilder\<close> calls \<open>findMany\<close> once. When the effective \<open>sortBy\<close>
  (\<open>sortBy\<close>, or the cursor field when \<open>sortBy\<close> is absent or empty) differs from the
  cursor field, the \<open>orderBy\<close> argument is the list
  \<open>[{[sortBy]: sortOrder}, {[cursorField]: sortOrder}]\<close>; when it equals the cursor field,
  \<open>orderBy\<close> is the single object \<open>{[sortBy]: sortOrder}\<close>.
\<close>

theorem cursorQueryBuilder_orderBy:
  "calls (cursorQueryBuilder toStr a) = [FindMany (cursor_findArgs a)]
   \<and> (effectiveSortBy (c_sortBy a) (dflt ''id'' (c_cursorField a)) \<noteq> dflt ''id'' (c_cursorField a) \<longrightarrow>
        member (cursor_findArgs a) ''orderBy'' =
          JArr [JObj [(effectiveSortBy (c_sortBy a) (dflt ''id'' (c_cursorField a)),
                       sort_order_str (dflt desc (c_sortOrder a)))],
                JObj [(dflt ''id'' (c_cursorField a), sort_order_str (dflt desc (c_sortOrder a)))]])
   \<and> (effectiveSortBy (c_sortBy a) (dflt ''id'' (c_cursorField a)) = dflt ''id'' (c_cursorField a) \<longrightarrow>
        member (cursor_findArgs a) ''orderBy'' =
          JObj [(effectiveSortBy (c_sortBy a) (dflt ''id'' (c_cursorField a)),
                 sort_order_str (dflt desc (c_sortOrder a)))])
   \<and> (c_sortBy a = Some s \<and> s \<noteq> [] \<longrightarrow>
        effectiveSortBy (c_sortBy a) (dflt ''id'' (c_cursorField a)) = s)
   \<and> (c_sortBy a = None \<or> c_sortBy a = Some [] \<longrightarrow>
        effectiveSortBy (c_sortBy a) (dflt ''id'' (c_cursorField a)) = dflt ''id'' (c_cursorField a))"
  by (auto simp add: cursorQueryBuilder_def Let_def cursor_findArgs_orderBy cursor_orderBy_def
        effectiveSortBy_def)

theorem cursorQueryBuilder_orderBy_witness:
  "member (cursor_findArgs (ex_cursor_args (Some ''createdAt''))) ''orderBy'' =
     JArr [JObj [(''createdAt'', JStr ''desc'')], JObj [(''id'', JStr ''desc'')]]
   \<and> member (cursor_findArgs (ex_cursor_args (Some ''id''))) ''orderBy'' = JObj [(''id'', JStr ''desc'')]
   \<and> member (cursor_findArgs (ex_cursor_args None)) ''orderBy'' = JObj [(''id'', JStr ''desc'')]"
  using cursorQueryBuilder_orderBy [of String_simple "ex_cursor_args (Some ''createdAt'')" "''createdAt''"]
        cursorQueryBuilder_orderBy [of String_simple "ex_cursor_args (Some ''id'')" "''id''"]
        cursorQueryBuilder_orderBy [of String_simple "ex_cursor_args None" "''id''"]
  by (simp add: ex_cursor_args_def dflt_def effectiveSortBy_def)


section \<open>Offset query: condition object, calls and envelope\<close>


lemma Promise_all_cases:
  "Promise_all sf (Inl e) (Inr y) = Inl e"
  "Promise_all sf (Inr x) (Inl e) = Inl e"
  "Promise_all sf (Inl e1) (Inl e2) = Inl (if sf then e2 else e1)"
  "Promise_all sf (Inr x) (Inr y) = Inr (x, y)"
  by (simp_all add: Promise_all_def)

lemma Promise_all_Inl:
  "Promise_all sf p q = Inl e \<Longrightarrow> p = Inl e \<or> q = Inl e"
  by (auto simp add: Promise_all_def split: sum.splits if_splits)








section \<open>Failures of the data-access layer\<close>

text \<open>
  C9. No orchestrator catches or replaces a failure of the data-access layer. For
  \<open>queryBuilder\<close> and \<open>advancedQueryBuilder\<close>, which wait for \<open>findMany\<close> and \<open>count\<close>
  together: when one of the two rejects, the call rejects with that same reason (a
  failed \<open>count\<close> fails the whole call); when both reject, it rejects with the reason of
  the one rejecting first; and the call rejects only with a reason the layer gave.
  \<open>cursorQueryBuilder\<close> rejects with exactly the reason of \<open>findMany\<close>; \<open>countQuery\<close> and
  \<open>aggregateQuery\<close> return the promise of \<open>count\<close> and \<open>aggregate\<close> as it is. Each
  operation is called once: nothing is retried.
\<close>

theorem data_access_errors_propagate:
  "(\<exists>fa ca. calls (queryBuilder a) = [FindMany fa, Count ca]
      \<and> (\<forall>e t. findMany (q_model a) fa = Inl e \<and> count (q_model a) ca = Inr t \<longrightarrow>
                 result (queryBuilder a) = Inl e)
      \<and> (\<forall>e d. findMany (q_model a) fa = Inr d \<and> count (q_model a) ca = Inl e \<longrightarrow>
                 result (queryBuilder a) = Inl e)
      \<and> (\<forall>e1 e2. findMany (q_model a) fa = Inl e1 \<and> count (q_model a) ca = Inl e2 \<longrightarrow>
                 result (queryBuilder a) = Inl (if count_rejects_first (q_model a) then e2 else e1))
      \<and> (\<forall>e. result (queryBuilder a) = Inl e \<longrightarrow>
                 findMany (q_model a) fa = Inl e \<or> count (q_model a) ca = Inl e))
   \<and> (\<exists>fa ca. calls (advancedQueryBuilder b) = [FindMany fa, Count ca]
      \<and> (\<forall>e t. findMany (a_model b) fa = Inl e \<and> count (a_model b) ca = Inr t \<longrightarrow>
                 result (advancedQueryBuilder b) = Inl e)
      \<and> (\<forall>e d. findMany (a_model b) fa = Inr d \<and> count (a_model b) ca = Inl e \<longrightarrow>
                 result (advancedQueryBuilder b) = Inl e)
      \<and> (\<forall>e1 e2. findMany (a_model b) fa = Inl e1 \<and> count (a_model b) ca = Inl e2 \<longrightarrow>
                 result (advancedQueryBuilder b) = Inl (if count_rejects_first (a_model b) then e2 else e1))
      \<and> (\<forall>e. result (advancedQueryBuilder b) = Inl e \<longrightarrow>
                 findMany (a_model b) fa = Inl e \<or> count (a_model b) ca = Inl e))
   \<and> (\<exists>fa. calls (cursorQueryBuilder toStr c) = [FindMany fa]
      \<and> (\<forall>e. result (cursorQueryBuilder toStr c) = Inl e \<longleftrightarrow> findMany (c_model c) fa = Inl e))
   \<and> (\<exists>ca. calls (countQuery n) = [Count ca] \<and> result (countQuery n) = count (n_model n) ca)
   \<and> (\<exists>ga. calls (aggregateQuery n aggregations) = [Aggregate ga]
      \<and> result (aggregateQuery n aggregations) = aggregate (n_model n) ga)"
proof (intro conjI)
  show "\<exists>fa ca. calls (queryBuilder a) = [FindMany fa, Count ca]
      \<and> (\<forall>e t. findMany (q_model a) fa = Inl e \<and> count (q_model a) ca = Inr t \<longrightarrow>
                 result (queryBuilder a) = Inl e)
      \<and> (\<forall>e d. findMany (q_model a) fa = Inr d \<and> count (q_model a) ca = Inl e \<longrightarrow>
                 result (queryBuilder a) = Inl e)
      \<and> (\<forall>e1 e2. findMany (q_model a) fa = Inl e1 \<and> count (q_model a) ca = Inl e2 \<longrightarrow>
                 result (queryBuilder a) = Inl (if count_rejects_first (q_model a) then e2 else e1))
      \<and> (\<forall>e. result (queryBuilder a) = Inl e \<longrightarrow>
                 findMany (q_model a) fa = Inl e \<or> count (q_model a) ca = Inl e)"
    by (auto simp add: queryBuilder_def Let_def Promise_all_cases split: sum.splits
          dest: Promise_all_Inl)
  show "\<exists>fa ca. calls (advancedQueryBuilder b) = [FindMany fa, Count ca]
      \<and> (\<forall>e t. findMany (a_model b) fa = Inl e \<and> count (a_model b) ca = Inr t \<longrightarrow>
                 result (advancedQueryBuilder b) = Inl e)
      \<and> (\<forall>e d. findMany (a_model b) fa = Inr d \<and> count (a_model b) ca = Inl e \<longrightarrow>
                 result (advancedQueryBuilder b) = Inl e)
      \<and> (\<forall>e1 e2. findMany (a_model b) fa = Inl e1 \<and> count (a_model b) ca = Inl e2 \<longrightarrow>
                 result (advancedQueryBuilder b) = Inl (if count_rejects_first (a_model b) then e2 else e1))
      \<and> (\<forall>e. result (advancedQueryBuilder b) = Inl e \<longrightarrow>
                 findMany (a_model b) fa = Inl e \<or> count (a_model b) ca = Inl e)"
    by (auto simp add: advancedQueryBuilder_def Let_def Promise_all_cases split: sum.splits
          dest: Promise_all_Inl)
  show "\<exists>fa. calls (cursorQueryBuilder toStr c) = [FindMany fa]
      \<and> (\<forall>e. result (cursorQueryBuilder toStr c) = Inl e \<longleftrightarrow> findMany (c_model c) fa = Inl e)"
    by (auto simp add: cursorQueryBuilder_def Let_def split: sum.splits)
  show "\<exists>ca. calls (countQuery n) = [Count ca] \<and> result (countQuery n) = count (n_model n) ca"
    by (simp add: countQuery_def Let_def)
  show "\<exists>ga. calls (aggregateQuery n aggregations) = [Aggregate ga]
      \<and> result (aggregateQuery n aggregations) = aggregate (n_model n) ga"
    by (simp add: aggregateQuery_def Let_def)
qed


theorem data_access_errors_propagate_witness:
  "result (queryBuilder (ex_query_args (failingCount [] (JStr ''P1001'')) ''john'')) = Inl (JStr ''P1001'')
   \<and> result (queryBuilder (ex_query_args (failingModel (JStr ''E1'') (JStr ''E2'') True) ''john''))
       = Inl (JStr ''E2'')
   \<and> result (advancedQueryBuilder (ex_advanced_args (failingModel (JStr ''E1'') (JStr ''E2'') False)))
       = Inl (JStr ''E1'')
   \<and> result (cursorQueryBuilder String_simple
         ((ex_cursor_args None)\<lparr> c_model := failingModel (JStr ''E1'') (JStr ''E2'') False \<rparr>))
       = Inl (JStr ''E1'')
   \<and> result (countQuery (ex_count_args (failingCount [] (JStr ''P1001'')))) = Inl (JStr ''P1001'')
   \<and> result (aggregateQuery (ex_count_args (failingCount [] (JStr ''P1001''))) []) = Inl (JStr ''P1001'')"
  using data_access_errors_propagate
          [of "ex_query_args (failingCount [] (JStr ''P1001'')) ''john''"
              "ex_advanced_args (failingModel (JStr ''E1'') (JStr ''E2'') False)"
              String_simple
              "(ex_cursor_args None)\<lparr> c_model := failingModel (JStr ''E1'') (JStr ''E2'') False \<rparr>"
              "ex_count_args (failingCount [] (JStr ''P1001''))" "[]"]
        data_access_errors_propagate
          [of "ex_query_args (failingModel (JStr ''E1'') (JStr ''E2'') True) ''john''"
              "ex_advanced_args (failingModel (JStr ''E1'') (JStr ''E2'') False)"
              String_simple
              "(ex_cursor_args None)\<lparr> c_model := failingModel (JStr ''E1'') (JStr ''E2'') False \<rparr>"
              "ex_count_args (failingCount [] (JStr ''P1001''))" "[]"]
  by (simp add: queryBuilder_def advancedQueryBuilder_def cursorQueryBuilder_def countQuery_def
        aggregateQuery_def Let_def ex_query_args_def ex_advanced_args_def ex_cursor_args_def
        ex_count_args_def failingCount_def failingModel_def Promise_all_def)

end
